theory Spec2Isabelle
  imports Complex_Main
begin

section \<open>Errors, arrays and scalars\<close>

text \<open>
  The exceptions that \<^verbatim>\<open>networks.py\<close> and the calls it makes can raise. A function of the
  source that can raise returns \<open>error + 'a\<close>, with \<open>Inl\<close> for the exception.
\<close>

datatype error =
    NotImplementedError
  | ValueError
  | TypeError
  | AttributeError
  | UnboundLocalError

text \<open>
  An array is its shape and its elements in row-major order. Elements are real numbers:
  rounding, overflow and infinities of the floating-point types are outside this model.
\<close>

record tensor =
  shape :: "nat list"
  data :: "real list"

text \<open>
  The value of a reduction to a single number. The mean of an array without elements is
  the quotient 0/0, which \<^verbatim>\<open>jnp.mean\<close> returns as \<^verbatim>\<open>nan\<close>; it is kept apart from the numbers.
\<close>

datatype scalar = Num real | NaN

fun neg :: "scalar \<Rightarrow> scalar" where
  "neg (Num r) = Num (- r)"
| "neg NaN = NaN"

definition jnp_mean :: "tensor \<Rightarrow> scalar" where
  "jnp_mean a =
     (if data a = [] then NaN else Num (sum_list (data a) / real (length (data a))))"

definition ones_like :: "tensor \<Rightarrow> tensor" where
  "ones_like a = \<lparr>shape = shape a, data = map (\<lambda>_. 1) (data a)\<rparr>"

text \<open>A Python number times an array, and a function applied to every element.\<close>

definition scalar_mul :: "real \<Rightarrow> tensor \<Rightarrow> tensor" where
  "scalar_mul c a = \<lparr>shape = shape a, data = map (\<lambda>v. c * v) (data a)\<rparr>"

definition tmap :: "(real \<Rightarrow> real) \<Rightarrow> tensor \<Rightarrow> tensor" where
  "tmap f a = \<lparr>shape = shape a, data = map f (data a)\<rparr>"

text \<open>
  An elementwise binary operation on two arrays. Every use below is on two arrays of one
  shape (see \<open>get_target_tensor_shape\<close>), where no broadcasting takes place.
\<close>

definition tzip :: "(real \<Rightarrow> real \<Rightarrow> real) \<Rightarrow> tensor \<Rightarrow> tensor \<Rightarrow> tensor" where
  "tzip f a b = \<lparr>shape = shape a, data = map2 f (data a) (data b)\<rparr>"

text \<open>\<^verbatim>\<open>jnp.clip(a, 0, None)\<close>: a lower bound only.\<close>

definition jnp_clip :: "tensor \<Rightarrow> real \<Rightarrow> tensor" where
  "jnp_clip a lo = tmap (\<lambda>v. max v lo) a"

section \<open>GanLoss\<close>

text \<open>The attributes that \<^verbatim>\<open>GanLoss.__init__\<close> assigns.\<close>

record GanLoss =
  gan_mode :: string
  target_real_label :: real
  target_fake_label :: real

text \<open>
  What \<^verbatim>\<open>super\<close> is given as its one argument: a class, or an instance of a class. With one
  argument, \<^verbatim>\<open>super\<close> takes a class; an instance is a TypeError.
\<close>

datatype pyobject = Class string | Instance string

definition py_super :: "pyobject \<Rightarrow> error + pyobject" where
  "py_super arg =
     (case arg of
        Class c \<Rightarrow> Inr (Class c)
      | Instance c \<Rightarrow> Inl TypeError)"

text \<open>
  \<^verbatim>\<open>__init__\<close>: its first statement is \<^verbatim>\<open>super(self).__init__()\<close>, with the instance as the
  argument; the three assignments follow it.
\<close>

definition GanLoss_init :: "string \<Rightarrow> real \<Rightarrow> real \<Rightarrow> error + GanLoss" where
  "GanLoss_init mode real_label fake_label =
     (case py_super (Instance ''GanLoss'') of
        Inl e \<Rightarrow> Inl e
      | Inr _ \<Rightarrow>
          Inr \<lparr>gan_mode = mode, target_real_label = real_label,
               target_fake_label = fake_label\<rparr>)"


definition get_target_tensor :: "GanLoss \<Rightarrow> tensor \<Rightarrow> bool \<Rightarrow> tensor" where
  "get_target_tensor self prediction target_is_real =
     (let target_label =
            (if target_is_real then target_real_label self else target_fake_label self);
          target = ones_like prediction
      in scalar_mul target_label target)"

text \<open>
  Lines 210 to 216, the body of the \<^verbatim>\<open>'vanila'\<close> branch: the shape check, then the loss
  of each element, then the mean.
\<close>

definition bce_elements :: "tensor \<Rightarrow> tensor \<Rightarrow> tensor" where
  "bce_elements prediction target_array =
     (let max_val = jnp_clip (tmap uminus prediction) 0
      in tzip (+)
           (tzip (+)
              (tzip (-) prediction (tzip (*) prediction target_array))
              max_val)
           (tmap ln
              (tzip (+)
                 (tmap exp (tmap uminus max_val))
                 (tmap exp (tzip (-) (tmap uminus prediction) max_val)))))"

definition bce_with_logits :: "tensor \<Rightarrow> tensor \<Rightarrow> error + scalar" where
  "bce_with_logits prediction target_array =
     (if shape target_array \<noteq> shape prediction then Inl ValueError
      else Inr (jnp_mean (bce_elements prediction target_array)))"

text \<open>
  \<^verbatim>\<open>__call__\<close>. The local \<^verbatim>\<open>loss_value\<close> is unbound until a branch assigns it, so it is an
  option here, and returning it unbound is Python's UnboundLocalError. The first \<^verbatim>\<open>if\<close>
  stands alone; the second \<^verbatim>\<open>if\<close> carries the \<^verbatim>\<open>elif\<close>.
\<close>

definition GanLoss_call :: "GanLoss \<Rightarrow> tensor \<Rightarrow> bool \<Rightarrow> error + scalar" where
  "GanLoss_call self prediction target_is_real =
     (let target_array = get_target_tensor self prediction target_is_real;
          loss_value =
            (if gan_mode self \<in> set [''lsgan'']
             then Some (jnp_mean (tmap (\<lambda>d. d ^ 2) (tzip (-) prediction target_array)))
             else None)
      in if gan_mode self \<in> set [''vanila'']
         then bce_with_logits prediction target_array
         else if gan_mode self \<in> set [''wgangp'']
         then (if target_is_real then Inr (neg (jnp_mean prediction))
               else Inr (jnp_mean prediction))
         else (case loss_value of
                 None \<Rightarrow> Inl UnboundLocalError
               | Some l \<Rightarrow> Inr l))"

section \<open>Python values and layers\<close>

text \<open>
  The argument values that the source passes to the layer constructors, and Python's
  truth test and \<^verbatim>\<open>or\<close>: \<^verbatim>\<open>a or b\<close> is \<^verbatim>\<open>a\<close> when \<^verbatim>\<open>a\<close> is true, else \<^verbatim>\<open>b\<close>.
\<close>

datatype pyval =
    PInt int
  | PBool bool
  | PFloat real
  | PStr string
  | PInts "int list"
  | PPairs "(int \<times> int) list"

fun truthy :: "pyval \<Rightarrow> bool" where
  "truthy (PInt i) = (i \<noteq> 0)"
| "truthy (PBool b) = b"
| "truthy (PFloat r) = (r \<noteq> 0)"
| "truthy (PStr s) = (s \<noteq> [])"
| "truthy (PInts l) = (l \<noteq> [])"
| "truthy (PPairs l) = (l \<noteq> [])"

definition py_or :: "pyval \<Rightarrow> pyval \<Rightarrow> pyval" where
  "py_or a b = (if truthy a then a else b)"

text \<open>
  \<^verbatim>\<open>class ResnetBlock\<close> declares one field, \<^verbatim>\<open>features\<close>. Its constructor binds one
  positional argument to it; a call with no argument or with more than one is a
  TypeError. Reading an attribute that the class does not declare is an AttributeError.
\<close>

record ResnetBlock =
  features :: pyval

definition ResnetBlock_new :: "pyval list \<Rightarrow> error + ResnetBlock" where
  "ResnetBlock_new args =
     (case args of
        [f] \<Rightarrow> Inr \<lparr>features = f\<rparr>
      | _ \<Rightarrow> Inl TypeError)"

definition ResnetBlock_getattr :: "ResnetBlock \<Rightarrow> string \<Rightarrow> error + pyval" where
  "ResnetBlock_getattr self name =
     (if name = ''features'' then Inr (features self) else Inl AttributeError)"

text \<open>
  A layer of the library is recorded as the call that the source writes: the class, the
  positional arguments and the keyword arguments. \<open>Fn\<close> is a plain function such as
  \<^verbatim>\<open>nn.relu\<close>, \<open>Block\<close> a ResnetBlock of this file.
\<close>

datatype layer =
    Lib string "pyval list" "(string \<times> pyval) list"
  | Fn string
  | Block ResnetBlock

text \<open>
  \<^verbatim>\<open>nn.Sequential\<close> declares one field, \<^verbatim>\<open>layers\<close>, a sequence.
  \<^verbatim>\<open>nn.Sequential(layers=sequence)\<close> sets it. \<^verbatim>\<open>nn.Sequential(*model)\<close> passes every element
  of \<^verbatim>\<open>model\<close> as a positional argument of its own: more than one is a TypeError, as is
  none; a single layer is no sequence, a ValueError.
\<close>

definition nn_Sequential_layers :: "layer list \<Rightarrow> error + layer list" where
  "nn_Sequential_layers sequence = Inr sequence"

definition nn_Sequential_star :: "layer list \<Rightarrow> error + layer list" where
  "nn_Sequential_star model =
     (case model of
        [l] \<Rightarrow> Inl ValueError
      | _ \<Rightarrow> Inl TypeError)"

text \<open>
  \<^verbatim>\<open>jnp.min(a, axis)\<close> on a number \<^verbatim>\<open>a\<close>: the second positional parameter of \<^verbatim>\<open>jnp.min\<close>
  is the axis to reduce along. A number is an array of dimension 0, the axis has to lie
  in \<open>[-ndim, ndim)\<close>, and an axis outside is a ValueError.
\<close>

definition jnp_min :: "int \<Rightarrow> int \<Rightarrow> error + int" where
  "jnp_min a axis =
     (let ndim = (0::int)
      in if - ndim \<le> axis \<and> axis < ndim then Inr a else Inl ValueError)"

section \<open>ResnetBlock\<close>

text \<open>
  \<^verbatim>\<open>setup\<close> and \<^verbatim>\<open>__call__\<close>. The forward pass of a pipeline and the addition of two arrays
  belong to the library and are parameters: \<open>forward\<close> and \<open>add\<close>.
\<close>

definition ResnetBlock_setup :: "ResnetBlock \<Rightarrow> error + layer list" where
  "ResnetBlock_setup self =
     (let model =
            [Lib ''Conv'' []
               [(''features'', features self), (''kernel_size'', PInts [3, 3]),
                (''padding'', PPairs [(1, 1), (1, 1)])],
             Lib ''GroupNorm'' [] [(''group_size'', PInt 1)],
             Fn ''relu'']
      in case ResnetBlock_getattr self ''use_dropout'' of
           Inl e \<Rightarrow> Inl e
         | Inr use_dropout \<Rightarrow>
             (let model = (if truthy use_dropout
                           then model @ [Lib ''Dropout'' [PFloat (1 / 2)] []]
                           else model);
                  model = model @
                    [Lib ''Conv'' []
                       [(''features'', features self), (''kernel_size'', PInts [3, 3]),
                        (''padding'', PPairs [(1, 1), (1, 1)])],
                     Lib ''GroupNorm'' [] [(''group_size'', PInt 1)]]
              in nn_Sequential_star model))"

definition ResnetBlock_call ::
    "(layer list \<Rightarrow> tensor \<Rightarrow> error + tensor) \<Rightarrow> (tensor \<Rightarrow> tensor \<Rightarrow> error + tensor) \<Rightarrow>
     ResnetBlock \<Rightarrow> tensor \<Rightarrow> error + tensor" where
  "ResnetBlock_call forward add self input =
     (case ResnetBlock_setup self of
        Inl e \<Rightarrow> Inl e
      | Inr model \<Rightarrow>
          (case forward model input of
             Inl e \<Rightarrow> Inl e
           | Inr output \<Rightarrow> add input output))"

section \<open>Generator\<close>

record Generator =
  output_nc :: int
  ngf :: int
  n_res_blocks :: int
  use_dropout :: bool

text \<open>The three loops of \<^verbatim>\<open>setup\<close>, each over \<^verbatim>\<open>range(...)\<close>, as recursion over the indices.\<close>

fun downsampling :: "Generator \<Rightarrow> nat list \<Rightarrow> layer list \<Rightarrow> layer list" where
  "downsampling self [] model = model"
| "downsampling self (i # is) model =
     (let mult = 2 ^ i
      in downsampling self is
           (model @
            [Lib ''Conv'' []
               [(''features'', PInt (ngf self * mult * 2)), (''kernel_size'', PInts [3, 3]),
                (''strides'', PInt 2), (''padding'', PPairs [(1, 1), (1, 1)])],
             Lib ''GroupNorm'' [] [(''group_size'', PInt 1)],
             Fn ''relu'']))"

fun resnet_blocks :: "Generator \<Rightarrow> int \<Rightarrow> nat list \<Rightarrow> layer list \<Rightarrow> error + layer list" where
  "resnet_blocks self mult [] model = Inr model"
| "resnet_blocks self mult (i # is) model =
     (case ResnetBlock_new [PInt (ngf self * mult), PBool (use_dropout self)] of
        Inl e \<Rightarrow> Inl e
      | Inr block \<Rightarrow> resnet_blocks self mult is (model @ [Block block]))"

fun upsampling :: "Generator \<Rightarrow> nat \<Rightarrow> nat list \<Rightarrow> layer list \<Rightarrow> layer list" where
  "upsampling self n_downsample_layers [] model = model"
| "upsampling self n_downsample_layers (i # is) model =
     (let mult = 2 ^ (n_downsample_layers - i)
      in upsampling self n_downsample_layers is
           (model @
            [Lib ''ConvTranspose'' []
               [(''features'', PInt ((ngf self * mult) div 2)), (''kernel_size'', PInts [3, 3]),
                (''strides'', PInt 2), (''padding'', PPairs [(1, 1), (1, 1)])],
             Lib ''GroupNorm'' [] [(''group_size'', PInt 1)],
             Fn ''relu'']))"

definition Generator_setup :: "Generator \<Rightarrow> error + layer list" where
  "Generator_setup self =
     (let model =
            [Lib ''Conv'' []
               [(''features'', PInt (ngf self)), (''kernel_size'', PInts [7, 7]),
                (''padding'', PPairs [(3, 3), (3, 3)])],
             Lib ''GroupNorm'' [] [(''group_size'', PInt 1)],
             Fn ''relu''];
          n_downsample_layers = 2;
          model = downsampling self [0..<n_downsample_layers] model;
          mult = 2 ^ n_downsample_layers
      in case resnet_blocks self mult [0..<nat (n_res_blocks self)] model of
           Inl e \<Rightarrow> Inl e
         | Inr model \<Rightarrow>
             (let model = upsampling self n_downsample_layers [0..<n_downsample_layers] model;
                  model = model @
                    [Lib ''Conv'' []
                       [(''features'', PInt (output_nc self)), (''kernel_size'', PInts [7, 7]),
                        (''padding'', PInt 0)]];
                  model = model @ [Fn ''tanh'']
              in nn_Sequential_star model))"

definition Generator_call ::
    "(layer list \<Rightarrow> tensor \<Rightarrow> error + tensor) \<Rightarrow> (tensor \<Rightarrow> tensor \<Rightarrow> error + tensor) \<Rightarrow>
     Generator \<Rightarrow> tensor \<Rightarrow> error + tensor" where
  "Generator_call forward add self input =
     (case Generator_setup self of
        Inl e \<Rightarrow> Inl e
      | Inr model \<Rightarrow>
          (case forward model input of
             Inl e \<Rightarrow> Inl e
           | Inr output \<Rightarrow> add input output))"

section \<open>Discriminator\<close>

text \<open>The attributes that \<^verbatim>\<open>Discriminator.__init__\<close> assigns; \<^verbatim>\<open>n_layers\<close> is a count.\<close>

record Discriminator =
  ndf :: int
  netD :: string
  n_layers :: nat
  norm :: string
  init_type :: string
  init_gain :: real

text \<open>The loop \<^verbatim>\<open>for n in range(1, self.n_layers)\<close>; an exception ends it.\<close>

fun filters_loop ::
    "Discriminator \<Rightarrow> int \<Rightarrow> int \<Rightarrow> bool \<Rightarrow> nat list \<Rightarrow> layer list \<Rightarrow> error + layer list" where
  "filters_loop self kw padw use_bias [] sequence = Inr sequence"
| "filters_loop self kw padw use_bias (n # ns) sequence =
     (case jnp_min (2 ^ n) 8 of
        Inl e \<Rightarrow> Inl e
      | Inr nf_mult \<Rightarrow>
          filters_loop self kw padw use_bias ns
            (sequence @
             [Lib ''Conv'' []
                [(''features'', PInt (ndf self * nf_mult)), (''kernel_size'', PInt kw),
                 (''strides'', PInt 2), (''padding'', PInt padw), (''use_bias'', PBool use_bias)],
              Lib ''GroupNorm'' [] [(''group_size'', PInt 1)],
              Lib ''PReLU'' [] [(''negative_slope_init'', PFloat (2 / 10))]]))"

text \<open>
  \<^verbatim>\<open>setup\<close> returns what it leaves in \<^verbatim>\<open>self.model\<close>: \<open>None\<close> when no branch assigns it. The
  condition of the first branch is \<^verbatim>\<open>self.netD == "n_layers" or "basic"\<close>. The last branch
  builds a NotImplementedError and drops it: there is no \<^verbatim>\<open>raise\<close>.
\<close>

definition Discriminator_setup :: "Discriminator \<Rightarrow> error + layer list option" where
  "Discriminator_setup self =
     (let use_bias = False
      in if truthy (py_or (PBool (netD self = ''n_layers'')) (PStr ''basic''))
         then
           (let kw = 4; padw = 1;
                sequence =
                  [Lib ''Conv'' []
                     [(''features'', PInt (ndf self)), (''kernel_size'', PInt kw),
                      (''strides'', PInt 2), (''padding'', PInt padw)],
                   Lib ''PReLU'' [] [(''negative_slope_init'', PFloat (2 / 10))]]
            in case filters_loop self kw padw use_bias [1..<n_layers self] sequence of
                 Inl e \<Rightarrow> Inl e
               | Inr sequence \<Rightarrow>
                   (case jnp_min (2 ^ n_layers self) 8 of
                      Inl e \<Rightarrow> Inl e
                    | Inr nf_mult \<Rightarrow>
                        (let sequence = sequence @
                               [Lib ''Conv'' []
                                  [(''features'', PInt (ndf self * nf_mult)),
                                   (''kernel_size'', PInt kw), (''strides'', PInt 2),
                                   (''padding'', PInt padw), (''use_bias'', PBool use_bias)],
                                Lib ''GroupNorm'' [] [(''group_size'', PInt 1)],
                                Lib ''PReLU'' [] [(''negative_slope_init'', PFloat (2 / 10))]];
                             sequence = sequence @
                               [Lib ''Conv'' [PInt 1]
                                  [(''kernel_size'', PInt kw), (''strides'', PInt 1),
                                   (''padding'', PInt padw)]]
                         in map_sum id Some (nn_Sequential_layers sequence))))
         else if netD self = ''pixel''
         then
           (let sequence =
                  [Lib ''Conv'' []
                     [(''features'', PInt (ndf self)), (''kernel_size'', PInt 1),
                      (''stride'', PInt 1), (''padding'', PInt 0)],
                   Lib ''PReLU'' [] [(''negative_slope_init'', PFloat (2 / 10))],
                   Lib ''Conv'' []
                     [(''features'', PInt (ndf self * 2)), (''kernel_size'', PInt 1),
                      (''strides'', PInt 1), (''padding'', PInt 0), (''use_bias'', PBool use_bias)],
                   Lib ''GroupNorm'' [] [(''group_size'', PInt 1)],
                   Lib ''PReLU'' [] [(''negative_slope_init'', PFloat (2 / 10))],
                   Lib ''Conv'' []
                     [(''features'', PInt 1), (''kernel_size'', PInt 1),
                      (''strides'', PInt 1), (''padding'', PInt 0), (''use_bias'', PBool use_bias)]]
            in map_sum id Some (nn_Sequential_layers sequence))
         else Inr None)"

text \<open>\<^verbatim>\<open>__call__\<close> reads \<^verbatim>\<open>self.model\<close>, an AttributeError when \<^verbatim>\<open>setup\<close> did not assign it.\<close>

definition Discriminator_call ::
    "(layer list \<Rightarrow> tensor \<Rightarrow> error + tensor) \<Rightarrow> Discriminator \<Rightarrow> tensor \<Rightarrow> error + tensor" where
  "Discriminator_call forward self input =
     (case Discriminator_setup self of
        Inl e \<Rightarrow> Inl e
      | Inr None \<Rightarrow> Inl AttributeError
      | Inr (Some model) \<Rightarrow> forward model input)"

section \<open>The losses as the specification words them\<close>

text \<open>
  The binary cross-entropy with logits of one element, as the specification writes it:
  \<open>max(x,0) - x*z + log(1 + exp(-|x|))\<close>.
\<close>

definition spec_bce :: "real \<Rightarrow> real \<Rightarrow> real" where
  "spec_bce x z = max x 0 - x * z + ln (1 + exp (- \<bar>x\<bar>))"

text \<open>
  The mean squared error between two arrays, written over the positions of the
  prediction; without elements it is the quotient 0/0.
\<close>

definition spec_mse :: "tensor \<Rightarrow> tensor \<Rightarrow> scalar" where
  "spec_mse p t =
     (if data p = [] then NaN
      else Num ((\<Sum>i\<leftarrow>[0..<length (data p)]. (data p ! i - data t ! i) ^ 2)
                 / real (length (data p))))"

section \<open>Properties of GanLoss\<close>

lemma get_target_tensor_shape:
  "shape (get_target_tensor self prediction target_is_real) = shape prediction"
  by (simp add: get_target_tensor_def ones_like_def scalar_mul_def Let_def)

lemma get_target_tensor_data:
  "data (get_target_tensor self prediction target_is_real) =
     map (\<lambda>_. if target_is_real then target_real_label self else target_fake_label self)
       (data prediction)"
  by (simp add: get_target_tensor_def ones_like_def scalar_mul_def Let_def)

text \<open>
  C10. The array that \<open>get_target_tensor\<close> returns is the label times
  \<open>ones_like prediction\<close> and has the shape of the prediction, whatever the prediction
  and the flag; so the call never raises the ValueError of the shape check.
\<close>

theorem target_shape_check_unreachable:
  "get_target_tensor self prediction target_is_real =
     scalar_mul (if target_is_real then target_real_label self else target_fake_label self)
       (ones_like prediction)
   \<and> shape (get_target_tensor self prediction target_is_real) = shape prediction
   \<and> GanLoss_call self prediction target_is_real \<noteq> Inl ValueError"
proof -
  have call: "GanLoss_call self prediction target_is_real \<noteq> Inl ValueError"
    by (simp add: GanLoss_call_def bce_with_logits_def get_target_tensor_shape Let_def
        split: option.splits)
  have eq: "get_target_tensor self prediction target_is_real =
     scalar_mul (if target_is_real then target_real_label self else target_fake_label self)
       (ones_like prediction)"
    by (simp add: get_target_tensor_def Let_def)
  have sh: "shape (get_target_tensor self prediction target_is_real) = shape prediction"
    by (rule get_target_tensor_shape)
  from eq sh call show ?thesis
    by blast
qed

lemma bce_element:
  "x - x * z + max (- x) 0 + ln (exp (- max (- x) 0) + exp (- x - max (- x) 0)) = spec_bce x z"
proof (cases "0 \<le> x")
  case True
  then show ?thesis by (simp add: spec_bce_def max_def)
next
  case False
  then show ?thesis by (simp add: spec_bce_def max_def add.commute)
qed

lemma bce_list:
  "map2 (+) (map2 (+) (map2 (-) xs (map2 (*) xs zs)) (map (\<lambda>v. max v 0) (map uminus xs)))
     (map ln (map2 (+) (map exp (map uminus (map (\<lambda>v. max v 0) (map uminus xs))))
        (map exp (map2 (-) (map uminus xs) (map (\<lambda>v. max v 0) (map uminus xs))))))
   = map2 spec_bce xs zs"
proof (induction xs arbitrary: zs)
  case Nil
  show ?case by simp
next
  case (Cons x xs)
  show ?case
  proof (cases zs)
    case Nil
    then show ?thesis by simp
  next
    case (Cons z zs')
    with Cons.IH [of zs'] bce_element [of x z] show ?thesis by simp
  qed
qed

lemma bce_elements_eq: "bce_elements x z = tzip spec_bce x z"
  unfolding bce_elements_def jnp_clip_def tmap_def tzip_def Let_def
  by (simp only: tensor.select_convs bce_list)

lemma vanila_branch_is_bce:
  "gan_mode self = ''vanila'' \<Longrightarrow>
     GanLoss_call self x target_is_real =
       Inr (jnp_mean (tzip spec_bce x (get_target_tensor self x target_is_real)))"
  by (simp add: GanLoss_call_def Let_def bce_with_logits_def bce_elements_eq
      get_target_tensor_shape)


text \<open>
  C4. In \<^verbatim>\<open>'wgangp'\<close> mode the call returns minus the mean of the prediction when the
  target is real and the mean itself when it is not; the flag selects exactly one of the
  two.
\<close>

theorem wgangp_loss:
  "gan_mode self = ''wgangp'' \<Longrightarrow>
     GanLoss_call self P True = Inr (neg (jnp_mean P))
   \<and> GanLoss_call self P False = Inr (jnp_mean P)
   \<and> GanLoss_call self P target_is_real =
       (if target_is_real then Inr (neg (jnp_mean P)) else Inr (jnp_mean P))"
  by (simp add: GanLoss_call_def Let_def)

theorem wgangp_loss_witness:
  "gan_mode \<lparr>gan_mode = ''wgangp'', target_real_label = 1, target_fake_label = 0\<rparr> = ''wgangp''
   \<and> GanLoss_call \<lparr>gan_mode = ''wgangp'', target_real_label = 1, target_fake_label = 0\<rparr>
        \<lparr>shape = [2], data = [1, 3]\<rparr> True = Inr (Num (- 2))
   \<and> GanLoss_call \<lparr>gan_mode = ''wgangp'', target_real_label = 1, target_fake_label = 0\<rparr>
        \<lparr>shape = [2], data = [1, 3]\<rparr> False = Inr (Num 2)"
  using wgangp_loss [of "\<lparr>gan_mode = ''wgangp'', target_real_label = 1, target_fake_label = 0\<rparr>"
      "\<lparr>shape = [2], data = [1, 3]\<rparr>"]
  by (simp add: jnp_mean_def)

lemma map2_by_index:
  "length xs = length ys \<Longrightarrow> map2 f xs ys = map (\<lambda>i. f (xs ! i) (ys ! i)) [0..<length xs]"
  by (rule nth_equalityI) simp_all

lemma lsgan_is_mse:
  "jnp_mean (tmap (\<lambda>d. d ^ 2) (tzip (-) p (get_target_tensor self p b)))
     = spec_mse p (get_target_tensor self p b)"
proof -
  let ?t = "get_target_tensor self p b"
  have len: "length (data p) = length (data ?t)"
    by (simp add: get_target_tensor_data)
  have "map (\<lambda>d. d ^ 2) (map2 (-) (data p) (data ?t))
          = map (\<lambda>i. (data p ! i - data ?t ! i) ^ 2) [0..<length (data p)]"
    by (simp only: map2_by_index [OF len] map_map comp_def)
  moreover have "(map2 (-) (data p) (data ?t) = []) = (data p = [])"
    using len by (cases "data p"; cases "data ?t") simp_all
  ultimately show ?thesis
    by (simp add: jnp_mean_def tmap_def tzip_def spec_mse_def del: get_target_tensor_data)
qed

text \<open>
  C3, as amended. In \<^verbatim>\<open>'lsgan'\<close> mode the call returns the mean squared error between
  the prediction and the target array made for it, for every prediction and flag. When
  the prediction equals that target and has at least one element, the loss is 0. A
  prediction without elements equals its target too, and its loss is \<^verbatim>\<open>nan\<close>.
\<close>

theorem lsgan_loss:
  "gan_mode self = ''lsgan'' \<Longrightarrow>
     GanLoss_call self p b = Inr (spec_mse p (get_target_tensor self p b))
   \<and> (p = get_target_tensor self p b \<and> data p \<noteq> [] \<longrightarrow>
        GanLoss_call self p b = Inr (Num 0))"
proof -
  assume m: "gan_mode self = ''lsgan''"
  have call: "GanLoss_call self p b
      = Inr (jnp_mean (tmap (\<lambda>d. d ^ 2) (tzip (-) p (get_target_tensor self p b))))"
    using m by (simp add: GanLoss_call_def Let_def)
  have zero: "jnp_mean (tmap (\<lambda>d. d ^ 2) (tzip (-) p p)) = Num 0" if "data p \<noteq> []"
    using that by (simp add: jnp_mean_def tmap_def tzip_def zip_same_conv_map comp_def)
  show ?thesis
  proof (intro conjI impI)
    show "GanLoss_call self p b = Inr (spec_mse p (get_target_tensor self p b))"
      by (simp only: call lsgan_is_mse)
  next
    assume h: "p = get_target_tensor self p b \<and> data p \<noteq> []"
    then have "GanLoss_call self p b = Inr (jnp_mean (tmap (\<lambda>d. d ^ 2) (tzip (-) p p)))"
      using call by simp
    with h zero show "GanLoss_call self p b = Inr (Num 0)" by simp
  qed
qed

theorem lsgan_loss_witness:
  "gan_mode \<lparr>gan_mode = ''lsgan'', target_real_label = 1, target_fake_label = 0\<rparr> = ''lsgan''
   \<and> \<lparr>shape = [2], data = [1, 1]\<rparr>
       = get_target_tensor \<lparr>gan_mode = ''lsgan'', target_real_label = 1, target_fake_label = 0\<rparr>
           \<lparr>shape = [2], data = [1, 1]\<rparr> True
   \<and> data \<lparr>shape = [2], data = [1, 1]\<rparr> \<noteq> []
   \<and> GanLoss_call \<lparr>gan_mode = ''lsgan'', target_real_label = 1, target_fake_label = 0\<rparr>
        \<lparr>shape = [2], data = [1, 1]\<rparr> True = Inr (Num 0)"
  using lsgan_loss [of "\<lparr>gan_mode = ''lsgan'', target_real_label = 1, target_fake_label = 0\<rparr>"
      "\<lparr>shape = [2], data = [1, 1]\<rparr>" True]
  by (simp add: get_target_tensor_def ones_like_def scalar_mul_def Let_def spec_mse_def)

text \<open>
  The claim C3 as it is written fails on the array of shape \<open>[0]\<close>: it equals its
  target, and the mean over no elements is \<^verbatim>\<open>nan\<close>, not 0.
\<close>

theorem lsgan_empty_counterexample:
  "\<lparr>shape = [0], data = []\<rparr>
     = get_target_tensor \<lparr>gan_mode = ''lsgan'', target_real_label = 1, target_fake_label = 0\<rparr>
         \<lparr>shape = [0], data = []\<rparr> True
   \<and> GanLoss_call \<lparr>gan_mode = ''lsgan'', target_real_label = 1, target_fake_label = 0\<rparr>
        \<lparr>shape = [0], data = []\<rparr> True = Inr NaN
   \<and> GanLoss_call \<lparr>gan_mode = ''lsgan'', target_real_label = 1, target_fake_label = 0\<rparr>
        \<lparr>shape = [0], data = []\<rparr> True \<noteq> Inr (Num 0)"
  by (simp add: GanLoss_call_def get_target_tensor_def ones_like_def scalar_mul_def Let_def
      jnp_mean_def tmap_def tzip_def)

text \<open>
  C6 fails on the code. Constructing a GanLoss raises TypeError for every mode,
  recognised or not: \<^verbatim>\<open>__init__\<close> calls \<^verbatim>\<open>super(self)\<close> with the instance before it assigns
  any attribute. No NotImplementedError is raised for an unrecognised mode, and no
  instance reaches \<^verbatim>\<open>setup\<close>.
\<close>

theorem GanLoss_init_raises:
  "GanLoss_init mode real_label fake_label = Inl TypeError
   \<and> GanLoss_init ''hinge'' 1 0 = Inl TypeError
   \<and> GanLoss_init ''hinge'' 1 0 \<noteq> Inl NotImplementedError
   \<and> GanLoss_init ''lsgan'' 1 0 = Inl TypeError"
  by (simp add: GanLoss_init_def py_super_def)

section \<open>Properties of the networks\<close>

lemma nn_Sequential_star_raises:
  "2 \<le> length model \<Longrightarrow> nn_Sequential_star model = Inl TypeError"
  by (cases model) (auto simp add: nn_Sequential_star_def split: list.splits)

lemma resnet_blocks_result:
  "resnet_blocks self mult is model = (if is = [] then Inr model else Inl TypeError)"
  by (cases "is") (simp_all add: ResnetBlock_new_def)

lemma upsampling_length: "length model \<le> length (upsampling self n is model)"
proof (induction "is" arbitrary: model)
  case Nil
  show ?case by simp
next
  case (Cons i "is")
  let ?stage =
    "[Lib ''ConvTranspose'' []
        [(''features'', PInt ((ngf self * 2 ^ (n - i)) div 2)), (''kernel_size'', PInts [3, 3]),
         (''strides'', PInt 2), (''padding'', PPairs [(1, 1), (1, 1)])],
      Lib ''GroupNorm'' [] [(''group_size'', PInt 1)],
      Fn ''relu'']"
  have "length model \<le> length (model @ ?stage)" by simp
  also have "\<dots> \<le> length (upsampling self n is (model @ ?stage))"
    by (rule Cons.IH)
  also have "upsampling self n is (model @ ?stage) = upsampling self n (i # is) model"
    by (simp add: Let_def)
  finally show ?case .
qed

lemma Generator_setup_raises: "Generator_setup self = Inl TypeError"
proof (cases "[0..<nat (n_res_blocks self)] = []")
  case False
  then show ?thesis
    by (simp add: Generator_setup_def Let_def resnet_blocks_result del: upt_eq_Nil_conv)
next
  case True
  have "2 \<le> length (upsampling self n is model @ [l1] @ [l2])" for n "is" model l1 l2
    by simp
  then show ?thesis
    using True
    by (simp add: Generator_setup_def Let_def resnet_blocks_result nn_Sequential_star_raises
        del: upt_eq_Nil_conv)
qed

text \<open>
  C1 fails on the code. \<^verbatim>\<open>Generator.setup\<close> raises for every configuration, so no call
  returns the input plus the output of the pipeline: with a residual block to build,
  \<^verbatim>\<open>ResnetBlock(self.ngf * mult, self.use_dropout)\<close> passes two positional arguments to a
  class of one field; with none, \<^verbatim>\<open>nn.Sequential(*model)\<close> passes every layer as an
  argument of its own. Here at the default configuration with three output channels.
\<close>

theorem Generator_call_raises:
  "Generator_setup \<lparr>output_nc = 3, ngf = 64, n_res_blocks = 6, use_dropout = True\<rparr>
     = Inl TypeError
   \<and> Generator_call forward add
       \<lparr>output_nc = 3, ngf = 64, n_res_blocks = 6, use_dropout = True\<rparr> input = Inl TypeError
   \<and> Generator_call forward add self input = Inl TypeError"
  by (simp add: Generator_call_def Generator_setup_raises)

lemma ResnetBlock_setup_raises: "ResnetBlock_setup self = Inl AttributeError"
  by (simp add: ResnetBlock_setup_def ResnetBlock_getattr_def Let_def)

text \<open>
  C2 fails on the code. \<^verbatim>\<open>ResnetBlock.setup\<close> reads \<^verbatim>\<open>self.use_dropout\<close>, which the class
  does not declare, so it raises AttributeError for every block, and no call returns the
  input plus the output of the two convolution stages.
\<close>

theorem ResnetBlock_call_raises:
  "ResnetBlock_getattr self ''use_dropout'' = Inl AttributeError
   \<and> ResnetBlock_setup \<lparr>features = PInt 256\<rparr> = Inl AttributeError
   \<and> ResnetBlock_call forward add \<lparr>features = PInt 256\<rparr> input = Inl AttributeError
   \<and> ResnetBlock_call forward add self input = Inl AttributeError"
  by (simp add: ResnetBlock_call_def ResnetBlock_setup_raises ResnetBlock_getattr_def)

lemma first_branch_always: "truthy (py_or (PBool (name = ''n_layers'')) (PStr ''basic''))"
  by (simp add: py_or_def)

lemma jnp_min_raises: "jnp_min a axis = Inl ValueError"
  by (simp add: jnp_min_def)

lemma filters_loop_result:
  "filters_loop self kw padw use_bias ns sequence =
     (if ns = [] then Inr sequence else Inl ValueError)"
  by (cases ns) (simp_all add: jnp_min_raises)

lemma Discriminator_setup_raises: "Discriminator_setup self = Inl ValueError"
  by (simp add: Discriminator_setup_def first_branch_always jnp_min_raises filters_loop_result
      Let_def del: upt_eq_Nil_conv)

text \<open>
  C7 fails on the code. The condition \<^verbatim>\<open>self.netD == "n_layers" or "basic"\<close> is true for
  every name, so an unrecognised name runs the \<^verbatim>\<open>n_layers\<close> branch like
  \<^verbatim>\<open>"n_layers"\<close> itself, and \<^verbatim>\<open>setup\<close> never raises NotImplementedError.
\<close>

theorem unrecognized_netD_not_rejected:
  "truthy (py_or (PBool (netD self = ''n_layers'')) (PStr ''basic''))
   \<and> Discriminator_setup self = Discriminator_setup (self\<lparr>netD := ''n_layers''\<rparr>)
   \<and> Discriminator_setup self \<noteq> Inl NotImplementedError
   \<and> Discriminator_setup
       \<lparr>ndf = 64, netD = ''resnet'', n_layers = 3, norm = ''batch'', init_type = ''normal'',
        init_gain = 2 / 100\<rparr> = Inl ValueError"
  by (simp add: Discriminator_setup_raises first_branch_always)

text \<open>
  C8 fails on the code. The multiplier is computed as \<^verbatim>\<open>jnp.min(2**n, 8)\<close>, a reduction
  of the number \<^verbatim>\<open>2**n\<close> along axis 8, which raises; \<^verbatim>\<open>setup\<close> ends there and no layer
  gets a multiplier.
\<close>

theorem filter_multiplier_raises:
  "jnp_min (2 ^ 1) 8 = Inl ValueError
   \<and> Discriminator_setup
       \<lparr>ndf = 64, netD = ''n_layers'', n_layers = 3, norm = ''batch'', init_type = ''normal'',
        init_gain = 2 / 100\<rparr> = Inl ValueError
   \<and> Discriminator_setup
       \<lparr>ndf = 64, netD = ''basic'', n_layers = 3, norm = ''batch'', init_type = ''normal'',
        init_gain = 2 / 100\<rparr> = Inl ValueError"
  by (simp add: Discriminator_setup_raises jnp_min_raises)

text \<open>
  C9 fails on the code. With \<^verbatim>\<open>netD = "pixel"\<close> the first branch of \<^verbatim>\<open>setup\<close> runs, as it
  does for \<^verbatim>\<open>"n_layers"\<close>; the branch of the 1x1 convolutions is never reached and the call
  returns no prediction map.
\<close>

theorem pixel_branch_unreachable:
  "Discriminator_setup
       \<lparr>ndf = 64, netD = ''pixel'', n_layers = 3, norm = ''batch'', init_type = ''normal'',
        init_gain = 2 / 100\<rparr>
     = Discriminator_setup
       \<lparr>ndf = 64, netD = ''n_layers'', n_layers = 3, norm = ''batch'', init_type = ''normal'',
        init_gain = 2 / 100\<rparr>
   \<and> Discriminator_call forward
       \<lparr>ndf = 64, netD = ''pixel'', n_layers = 3, norm = ''batch'', init_type = ''normal'',
        init_gain = 2 / 100\<rparr> input = Inl ValueError"
  by (simp add: Discriminator_call_def Discriminator_setup_raises)

end
